theory Spec2Isabelle
  imports Complex_Main
begin

section \<open>Data model\<close>

text \<open>
  The package works on \<^verbatim>\<open>float64\<close> throughout. It is embedded twice.

  The first embedding, of the whole package, takes the values as real numbers: every
  operation is the exact real operation that the Go operation rounds. Rounding,
  overflow, signed zeros, infinities and NaN are outside it, so a statement proved of it
  is a statement about the formulas of the code in exact arithmetic. The statements on
  the error of \<^verbatim>\<open>HaversineDistance\<close>, on the formulas of \<^verbatim>\<open>AER.ENU\<close>, \<^verbatim>\<open>ENU.AER\<close> and
  \<^verbatim>\<open>LLAToXYZ\<close>, on the \<^verbatim>\<open>AER\<close> round trip and on the WGS84 conversion cycle are
  proved of it.

  The second embedding, of the unit conversions and of \<^verbatim>\<open>HaversineDistance\<close>, is over a
  model of binary64 (sections \<open>binary64 arithmetic\<close> and following). The statements on
  the round trip of the units and on the value of \<^verbatim>\<open>HaversineDistance\<close>, which depend
  on rounding, are proved of it.

  \<^verbatim>\<open>Meters\<close>, \<^verbatim>\<open>Degrees\<close> and \<^verbatim>\<open>Radians\<close> are named \<^verbatim>\<open>float64\<close> types; a Go
  conversion such as \<^verbatim>\<open>Degrees(x)\<close> or \<^verbatim>\<open>x.F64()\<close> only changes the name of the
  type and keeps the number.
\<close>

type_synonym Meters = real
type_synonym Degrees = real
type_synonym Radians = real

definition Meters_F64 :: "Meters \<Rightarrow> real" where
  "Meters_F64 m = m"

definition Degrees_F64 :: "Degrees \<Rightarrow> real" where
  "Degrees_F64 d = d"

definition Radians_F64 :: "Radians \<Rightarrow> real" where
  "Radians_F64 r = r"

text \<open>\<^verbatim>\<open>func (d Degrees) Radians() Radians { return Radians(math.Pi / 180 * d) }\<close>\<close>

definition Degrees_Radians :: "Degrees \<Rightarrow> Radians" where
  "Degrees_Radians d = pi / 180 * d"

text \<open>\<^verbatim>\<open>func (r Radians) Degrees() Degrees { return Degrees(180 / math.Pi * r) }\<close>\<close>

definition Radians_Degrees :: "Radians \<Rightarrow> Degrees" where
  "Radians_Degrees r = 180 / pi * r"

text \<open>The field \<^verbatim>\<open>Range\<close> of \<^verbatim>\<open>AER\<close> is named \<open>Range_AER\<close>: \<open>Range\<close> is the range of a relation in HOL.\<close>

record AER =
  Azimuth :: Degrees
  Elevation :: Degrees
  Range_AER :: Meters

record LLA =
  Latitude :: Degrees
  Longitude :: Degrees
  Altitude :: Meters

record XYZ =
  X :: Meters
  Y :: Meters
  Z :: Meters

record ENU =
  East :: Meters
  North :: Meters
  Up :: Meters

section \<open>The functions of package math\<close>

text \<open>
  In exact arithmetic \<^verbatim>\<open>math.Sin\<close>, \<^verbatim>\<open>math.Cos\<close> and \<^verbatim>\<open>math.Sqrt\<close> are \<open>sin\<close>, \<open>cos\<close>
  and \<open>sqrt\<close>. \<^verbatim>\<open>math.Sqrt\<close> of a negative number is NaN where \<open>sqrt\<close> is
  \<open>- sqrt (- x)\<close>. The roots of \<^verbatim>\<open>ENU.AER\<close> and of the WGS84 conversions are roots of
  sums of squares or of \<open>1 - e\<^sup>2 * (sin x)\<^sup>2\<close>. The roots \<open>sqrt a\<close> and \<open>sqrt (1 - a)\<close>
  of \<^verbatim>\<open>HaversineDistance\<close> are roots of numbers between 0 and 1 in exact arithmetic
  only (lemmas \<open>haversine_a_nonneg\<close> and \<open>haversine_a_le_1\<close>): the rounded \<^verbatim>\<open>a\<close> of the
  code can exceed 1, and then the code takes the root of a negative number
  (lemma \<open>HaversineDistance64_antipodal\<close>).

  \<^verbatim>\<open>math.Atan2(y, x)\<close> follows the case distinction of Go's implementation on finite
  arguments:
  \<^verbatim>\<open>
    case y == 0:
        if x >= 0 && !Signbit(x) { return Copysign(0, y) }
        return Copysign(Pi, y)
    case x == 0:
        return Copysign(Pi/2, y)
    ...
    q := Atan(y / x)
    if x < 0 {
        if q <= 0 { return q + Pi }
        return q - Pi
    }
    return q
  \<close>
\<close>

definition Atan2 :: "real \<Rightarrow> real \<Rightarrow> real" where
  "Atan2 y x =
     (if y = 0 then (if x \<ge> 0 then 0 else pi)
      else if x = 0 then (if y > 0 then pi / 2 else - (pi / 2))
      else (let q = arctan (y / x) in
            if x < 0 then (if q \<le> 0 then q + pi else q - pi) else q))"

section \<open>AER and ENU\<close>

text \<open>
  \<^verbatim>\<open>
  func (aed AER) ENU() ENU {
      var (
          sinTheta = math.Sin(aed.Elevation.Radians().F64())
          cosTheta = math.Cos(aed.Elevation.Radians().F64())
          sinPhi   = math.Sin(aed.Azimuth.Radians().F64())
          cosPhi   = math.Cos(aed.Azimuth.Radians().F64())
      )
      return ENU{
          East:  aed.Range * Meters(sinPhi*cosTheta),
          North: aed.Range * Meters(cosPhi*sinTheta),
          Up:    aed.Range * Meters(sinTheta),
      }
  }
  \<close>
\<close>

definition AER_ENU :: "AER \<Rightarrow> ENU" where
  "AER_ENU aed =
     (let sinTheta = sin (Radians_F64 (Degrees_Radians (Elevation aed)));
          cosTheta = cos (Radians_F64 (Degrees_Radians (Elevation aed)));
          sinPhi = sin (Radians_F64 (Degrees_Radians (Azimuth aed)));
          cosPhi = cos (Radians_F64 (Degrees_Radians (Azimuth aed)))
      in \<lparr>East = Range_AER aed * (sinPhi * cosTheta),
          North = Range_AER aed * (cosPhi * sinTheta),
          Up = Range_AER aed * sinTheta\<rparr>)"

text \<open>
  \<^verbatim>\<open>
  func (enu ENU) AER() AER {
      var r = Meters(math.Sqrt((enu.East*enu.East + enu.North*enu.North).F64()))
      return AER{
          Azimuth:   Degrees(math.Atan2(enu.East.F64(), enu.North.F64())),
          Elevation: Degrees(math.Atan2(enu.Up.F64(), r.F64())),
          Range:     Meters(math.Sqrt((r*r + enu.Up*enu.Up).F64())),
      }
  }
  \<close>
  \<^verbatim>\<open>Degrees(...)\<close> is here the conversion of the type, not the method
  \<^verbatim>\<open>Radians.Degrees\<close>: the number that \<^verbatim>\<open>math.Atan2\<close> returns is stored as it is.
\<close>

definition ENU_AER :: "ENU \<Rightarrow> AER" where
  "ENU_AER enu =
     (let r = sqrt (Meters_F64 (East enu * East enu + North enu * North enu))
      in \<lparr>Azimuth = Atan2 (Meters_F64 (East enu)) (Meters_F64 (North enu)),
          Elevation = Atan2 (Meters_F64 (Up enu)) (Meters_F64 r),
          Range_AER = sqrt (Meters_F64 (r * r + Up enu * Up enu))\<rparr>)"

section \<open>The WGS84 ellipsoid\<close>

definition wgs84A :: real where
  "wgs84A = 6378137.0"

definition wgs84B :: real where
  "wgs84B = 6356752.314245"

definition wgs84F :: real where
  "wgs84F = (wgs84A - wgs84B) / wgs84A"

definition wgs84FInv :: real where
  "wgs84FInv = 1.0 / wgs84F"

definition wgs84ASq :: real where
  "wgs84ASq = wgs84A * wgs84A"

definition wgs84BSq :: real where
  "wgs84BSq = wgs84B * wgs84B"

definition wgs84ESq :: real where
  "wgs84ESq = wgs84F * (2 - wgs84F)"

text \<open>
  \<^verbatim>\<open>func (w wgs84) XYZToLLA(x XYZ) LLA\<close>. At \<open>cos phi = 0\<close> the Go division
  \<^verbatim>\<open>p / math.Cos(phi)\<close> is infinite or NaN, where the division of HOL is 0; no
  statement below is about such a point.
\<close>

definition XYZToLLA :: "XYZ \<Rightarrow> LLA" where
  "XYZToLLA x =
     (let eps = wgs84ESq / (1 - wgs84ESq);
          p = sqrt (Meters_F64 (X x * X x + Y x * Y x));
          q = Atan2 (Meters_F64 (Z x) * wgs84A) (p * wgs84B);
          sinQ = sin q;
          cosQ = cos q;
          sinQ3 = sinQ * sinQ * sinQ;
          cosQ3 = cosQ * cosQ * cosQ;
          phi = Atan2 (Meters_F64 (Z x) + eps * wgs84B * sinQ3)
                      (p - wgs84ESq * wgs84A * cosQ3);
          lambda = Atan2 (Meters_F64 (Y x)) (Meters_F64 (X x));
          v = wgs84A / sqrt (1.0 - wgs84ESq * sin phi * sin phi);
          h = (p / cos phi) - v
      in \<lparr>Latitude = Radians_Degrees phi,
          Longitude = Radians_Degrees lambda,
          Altitude = h\<rparr>)"

text \<open>
  \<^verbatim>\<open>func (w wgs84) LLAToXYZ(l LLA) XYZ\<close>, with the names of the source: \<open>lambda\<close> is
  the latitude and \<open>phi\<close> the longitude.
\<close>

definition LLAToXYZ :: "LLA \<Rightarrow> XYZ" where
  "LLAToXYZ l =
     (let lambda = Radians_F64 (Degrees_Radians (Latitude l));
          phi = Radians_F64 (Degrees_Radians (Longitude l));
          sinLambda = sin lambda;
          cosLambda = cos lambda;
          sinPhi = sin phi;
          cosPhi = cos phi;
          n = wgs84A / sqrt (1 - wgs84ESq * sinLambda * sinLambda)
      in \<lparr>X = (Meters_F64 (Altitude l) + n) * cosLambda * cosPhi,
          Y = (Meters_F64 (Altitude l) + n) * cosLambda * sinPhi,
          Z = (Meters_F64 (Altitude l) + (1 - wgs84ESq) * n) * sinLambda\<rparr>)"

text \<open>\<^verbatim>\<open>func (w wgs84) XYZToENU(ref LLA, e XYZ) ENU\<close>\<close>

definition XYZToENU :: "LLA \<Rightarrow> XYZ \<Rightarrow> ENU" where
  "XYZToENU ref e =
     (let lambda = Radians_F64 (Degrees_Radians (Latitude ref));
          phi = Radians_F64 (Degrees_Radians (Longitude ref));
          sinLambda = sin lambda;
          cosLambda = cos lambda;
          sinPhi = sin phi;
          cosPhi = cos phi;
          xref = LLAToXYZ ref;
          xd = Meters_F64 (X e - X xref);
          yd = Meters_F64 (Y e - Y xref);
          zd = Meters_F64 (Z e - Z xref)
      in \<lparr>East = - sinPhi * xd + cosPhi * yd,
          North = - cosPhi * sinLambda * xd - sinLambda * sinPhi * yd + cosLambda * zd,
          Up = cosLambda * cosPhi * xd + cosLambda * sinPhi * yd + sinLambda * zd\<rparr>)"

text \<open>\<^verbatim>\<open>func (w wgs84) LLAToENU(ref, lla LLA) ENU\<close>\<close>

definition LLAToENU :: "LLA \<Rightarrow> LLA \<Rightarrow> ENU" where
  "LLAToENU ref lla = (let xyz = LLAToXYZ lla in XYZToENU ref xyz)"

text \<open>\<^verbatim>\<open>func (w wgs84) ENUToXYZ(ref LLA, e ENU) XYZ\<close>\<close>

definition ENUToXYZ :: "LLA \<Rightarrow> ENU \<Rightarrow> XYZ" where
  "ENUToXYZ ref e =
     (let lambda = Radians_F64 (Degrees_Radians (Latitude ref));
          phi = Radians_F64 (Degrees_Radians (Longitude ref));
          s = sin lambda;
          n = wgs84A / sqrt (1 - wgs84ESq * s * s);
          sinLambda = sin lambda;
          cosLambda = cos lambda;
          sinPhi = sin phi;
          cosPhi = cos phi;
          x0 = (Meters_F64 (Altitude ref) + n) * cosLambda * cosPhi;
          y0 = (Meters_F64 (Altitude ref) + n) * cosLambda * sinPhi;
          z0 = (Meters_F64 (Altitude ref) + (1 - wgs84ESq) * n) * sinLambda;
          east = Meters_F64 (East e);
          north = Meters_F64 (North e);
          up = Meters_F64 (Up e);
          xd = - sinPhi * east - cosPhi * sinLambda * north + cosLambda * cosPhi * up;
          yd = cosPhi * east - sinLambda * sinPhi * north + cosLambda * sinPhi * up;
          zd = cosLambda * north + sinLambda * up;
          x = xd + x0;
          y = yd + y0;
          z = zd + z0
      in \<lparr>X = x, Y = y, Z = z\<rparr>)"

section \<open>Relative error\<close>

text \<open>
  The tests of the package compare with \<^verbatim>\<open>assert.InEpsilon(t, expected, actual, eps)\<close>:
  the relative error \<open>\<bar>expected - actual\<bar> / \<bar>expected\<bar>\<close> is at most \<open>eps\<close>. Written
  without the division, so that an expected value of 0 asks for the exact value.
\<close>

definition InEpsilon :: "real \<Rightarrow> real \<Rightarrow> real \<Rightarrow> bool" where
  "InEpsilon expected actual eps = (\<bar>expected - actual\<bar> \<le> eps * \<bar>expected\<bar>)"

section \<open>Haversine distance\<close>

text \<open>\<^verbatim>\<open>var earthRadiusMeters float64 = 6371000\<close>\<close>

definition earthRadiusMeters :: real where
  "earthRadiusMeters = 6371000"

text \<open>
  The value \<open>a\<close> of \<^verbatim>\<open>HaversineDistance\<close>, from the four angles in radians:
  \<^verbatim>\<open>
    deltaLon = originLon - positionLon
    deltaLat = originLat - positionLat
    a := math.Pow(math.Sin(deltaLat/2), 2) +
         math.Cos(originLat)*math.Cos(positionLat)*math.Pow(math.Sin(deltaLon/2), 2)
  \<close>
  \<^verbatim>\<open>math.Pow(x, 2)\<close> is the square.
\<close>

definition haversine_a :: "real \<Rightarrow> real \<Rightarrow> real \<Rightarrow> real \<Rightarrow> real" where
  "haversine_a originLon originLat positionLon positionLat =
     (let deltaLon = originLon - positionLon;
          deltaLat = originLat - positionLat
      in (sin (deltaLat / 2))\<^sup>2 + cos originLat * cos positionLat * (sin (deltaLon / 2))\<^sup>2)"

text \<open>
  \<^verbatim>\<open>func HaversineDistance(origin, position LLA) (Meters, error)\<close> returns a pair; the
  error is \<open>None\<close> for \<^verbatim>\<open>nil\<close> and carries the message of \<^verbatim>\<open>fmt.Errorf\<close> otherwise.
  The distance of the branch without error is the value of the formula in exact
  arithmetic, which the distance returned by the code approximates where it is a
  number; the function with every operation rounded, whose result can be NaN, is
  \<open>HaversineDistance64\<close> below.
\<close>

definition HaversineDistance :: "LLA \<Rightarrow> LLA \<Rightarrow> Meters \<times> string option" where
  "HaversineDistance origin position =
     (if Altitude origin \<noteq> 0 \<or> Altitude position \<noteq> 0
      then (0, Some ''geo.HaversineDistance: Altitude must be 0'')
      else
        (let originLon = Radians_F64 (Degrees_Radians (Longitude origin));
             originLat = Radians_F64 (Degrees_Radians (Latitude origin));
             positionLon = Radians_F64 (Degrees_Radians (Longitude position));
             positionLat = Radians_F64 (Degrees_Radians (Latitude position));
             a = haversine_a originLon originLat positionLon positionLat;
             c = 2 * Atan2 (sqrt a) (sqrt (1 - a))
         in (earthRadiusMeters * c, None)))"

section \<open>binary64 arithmetic\<close>

text \<open>
  Where a statement depends on rounding, underflow, overflow or NaN, the code is embedded
  a second time over a model of \<^verbatim>\<open>float64\<close>, the binary64 format of IEEE 754 with
  rounding to nearest, ties to even, which is what Go's \<^verbatim>\<open>*\<close>, \<^verbatim>\<open>/\<close>, \<^verbatim>\<open>+\<close>, \<^verbatim>\<open>-\<close> and
  \<^verbatim>\<open>math.Sqrt\<close> compute. A value is a sign with a magnitude (so that the two zeros differ),
  an infinity with its sign, or NaN. The sign \<open>True\<close> is the negative one. The functions
  operating on the names of this model carry the suffix \<open>64\<close>.
\<close>

datatype float64 = Num bool real | Infty bool | NaN

definition pow2 :: "int \<Rightarrow> real" where
  "pow2 e = 2 powr (of_int e)"

text \<open>The integer nearest to \<open>t\<close>, the even one of the two when \<open>t\<close> lies half way.\<close>

definition rne :: "real \<Rightarrow> int" where
  "rne t = (let f = \<lfloor>t\<rfloor>; d = t - of_int f
            in if d < 1 / 2 then f else if 1 / 2 < d then f + 1
               else if even f then f else f + 1)"

text \<open>
  A magnitude \<open>y\<close> with \<open>2\<^sup>e \<le> y < 2\<^sup>e\<^sup>+\<^sup>1\<close> is rounded to a multiple of \<open>2\<^sup>e\<^sup>-\<^sup>5\<^sup>2\<close> (53
  significant bits); below \<open>2\<^sup>-\<^sup>1\<^sup>0\<^sup>2\<^sup>2\<close>, in the subnormal range, to a multiple of
  \<open>2\<^sup>-\<^sup>1\<^sup>0\<^sup>7\<^sup>4\<close>. A rounded magnitude of \<open>2\<^sup>1\<^sup>0\<^sup>2\<^sup>4\<close> or more overflows to an infinity.
\<close>

definition expo :: "real \<Rightarrow> int" where
  "expo y = \<lfloor>log 2 y\<rfloor>"

definition ulp :: "real \<Rightarrow> real" where
  "ulp y = (if y < pow2 (- 1022) then pow2 (- 1074) else pow2 (expo y - 52))"

definition round_mag :: "real \<Rightarrow> real" where
  "round_mag y = of_int (rne (y / ulp y)) * ulp y"

definition rnd :: "bool \<Rightarrow> real \<Rightarrow> float64" where
  "rnd s y = (if pow2 1024 \<le> round_mag y then Infty s else Num s (round_mag y))"

text \<open>
  An untyped constant expression of Go, such as \<^verbatim>\<open>math.Pi / 180\<close>, is evaluated exactly
  and rounded once, when it is converted to \<^verbatim>\<open>float64\<close>.
\<close>

definition const64 :: "real \<Rightarrow> float64" where
  "const64 c = rnd (c < 0) \<bar>c\<bar>"

definition sval :: "bool \<Rightarrow> real \<Rightarrow> real" where
  "sval s m = (if s then - m else m)"

fun fneg :: "float64 \<Rightarrow> float64" where
  "fneg (Num s m) = Num (\<not> s) m"
| "fneg (Infty s) = Infty (\<not> s)"
| "fneg NaN = NaN"

fun fabs :: "float64 \<Rightarrow> float64" where
  "fabs (Num s m) = Num False m"
| "fabs (Infty s) = Infty False"
| "fabs NaN = NaN"

fun fmul :: "float64 \<Rightarrow> float64 \<Rightarrow> float64" where
  "fmul (Num s m) (Num t n) = rnd (s \<noteq> t) (m * n)"
| "fmul (Num s m) (Infty t) = (if m = 0 then NaN else Infty (s \<noteq> t))"
| "fmul (Infty s) (Num t n) = (if n = 0 then NaN else Infty (s \<noteq> t))"
| "fmul (Infty s) (Infty t) = Infty (s \<noteq> t)"
| "fmul NaN y = NaN"
| "fmul x NaN = NaN"

fun fdiv :: "float64 \<Rightarrow> float64 \<Rightarrow> float64" where
  "fdiv (Num s m) (Num t n) =
     (if n = 0 then (if m = 0 then NaN else Infty (s \<noteq> t)) else rnd (s \<noteq> t) (m / n))"
| "fdiv (Num s m) (Infty t) = Num (s \<noteq> t) 0"
| "fdiv (Infty s) (Num t n) = Infty (s \<noteq> t)"
| "fdiv (Infty s) (Infty t) = NaN"
| "fdiv NaN y = NaN"
| "fdiv x NaN = NaN"

text \<open>A sum that is exactly zero is \<open>-0\<close> only when both summands are negative.\<close>

fun fadd :: "float64 \<Rightarrow> float64 \<Rightarrow> float64" where
  "fadd (Num s m) (Num t n) =
     (let x = sval s m + sval t n
      in if x = 0 then Num (s \<and> t) 0 else rnd (x < 0) \<bar>x\<bar>)"
| "fadd (Num s m) (Infty t) = Infty t"
| "fadd (Infty s) (Num t n) = Infty s"
| "fadd (Infty s) (Infty t) = (if s = t then Infty s else NaN)"
| "fadd NaN y = NaN"
| "fadd x NaN = NaN"

definition fsub :: "float64 \<Rightarrow> float64 \<Rightarrow> float64" where
  "fsub x y = fadd x (fneg y)"

text \<open>\<^verbatim>\<open>math.Sqrt\<close>: the root of a negative number is NaN, the root of \<open>-0\<close> is \<open>-0\<close>.\<close>

fun fsqrt :: "float64 \<Rightarrow> float64" where
  "fsqrt (Num s m) = (if m = 0 then Num s 0 else if s then NaN else Num False (round_mag (sqrt m)))"
| "fsqrt (Infty s) = (if s then NaN else Infty False)"
| "fsqrt NaN = NaN"

text \<open>
  The comparisons \<^verbatim>\<open>x != 0\<close> and \<^verbatim>\<open>x == y\<close> of Go: the two zeros are equal, and NaN is
  different from every value, itself included.
\<close>

fun fne0 :: "float64 \<Rightarrow> bool" where
  "fne0 (Num s m) = (m \<noteq> 0)"
| "fne0 (Infty s) = True"
| "fne0 NaN = True"


text \<open>
  A finite value of magnitude at most \<open>2\<^sup>k\<close>; the predicate carries the proofs that an
  intermediate result is neither an infinity nor NaN.
\<close>

definition bounded64 :: "int \<Rightarrow> float64 \<Rightarrow> bool" where
  "bounded64 k x = (\<exists>s m. x = Num s m \<and> 0 \<le> m \<and> m \<le> pow2 k)"

section \<open>Unit conversions in binary64\<close>

text \<open>
  \<^verbatim>\<open>math.Pi\<close> is the untyped constant
  \<^verbatim>\<open>Pi = 3.14159265358979323846264338327950288419716939937510582097494459\<close>
  of package \<^verbatim>\<open>math\<close>. In \<^verbatim>\<open>Radians(math.Pi / 180 * d)\<close> the constant \<^verbatim>\<open>math.Pi / 180\<close> is
  converted to \<^verbatim>\<open>float64\<close> and multiplied with \<^verbatim>\<open>d\<close>; likewise \<^verbatim>\<open>180 / math.Pi\<close> in
  \<^verbatim>\<open>Degrees(180 / math.Pi * r)\<close>.
\<close>

definition math_Pi :: real where
  "math_Pi = 3.14159265358979323846264338327950288419716939937510582097494459"

definition Degrees_Radians64 :: "float64 \<Rightarrow> float64" where
  "Degrees_Radians64 d = fmul (const64 (math_Pi / 180)) d"


record LLA64 =
  Latitude64 :: float64
  Longitude64 :: float64
  Altitude64 :: float64

section \<open>Haversine distance in binary64\<close>

text \<open>
  The functions of package \<^verbatim>\<open>math\<close> that \<^verbatim>\<open>HaversineDistance\<close> calls are the fields of a
  record, so that the function is embedded once for every implementation of them;
  \<^verbatim>\<open>math.Sqrt\<close> is the correctly rounded root \<open>fsqrt\<close>.
\<close>

record mathlib =
  lib_Sin :: "float64 \<Rightarrow> float64"
  lib_Cos :: "float64 \<Rightarrow> float64"
  lib_Atan2 :: "float64 \<Rightarrow> float64 \<Rightarrow> float64"
  lib_Pow :: "float64 \<Rightarrow> float64 \<Rightarrow> float64"

definition earthRadiusMeters64 :: float64 where
  "earthRadiusMeters64 = Num False 6371000"

text \<open>
  \<^verbatim>\<open>
    func HaversineDistance(origin, position LLA) (Meters, error) {
        if origin.Altitude != 0 || position.Altitude != 0 {
            return 0, fmt.Errorf("geo.HaversineDistance: Altitude must be 0")
        }

        var (
            originLon = origin.Longitude.Radians().F64()
            originLat = origin.Latitude.Radians().F64()

            positionLon = position.Longitude.Radians().F64()
            positionLat = position.Latitude.Radians().F64()

            deltaLon = originLon - positionLon
            deltaLat = originLat - positionLat
        )

        a := math.Pow(math.Sin(deltaLat/2), 2) + math.Cos(originLat)*math.Cos(positionLat)*math.Pow(math.Sin(deltaLon/2), 2)

        c := 2 * math.Atan2(math.Sqrt(a), math.Sqrt(1-a))
        return Meters(earthRadiusMeters * c), nil
    }
  \<close>
  with every operation rounded. No step of it clamps \<^verbatim>\<open>a\<close> to the interval from 0 to 1.
\<close>

definition HaversineDistance64 :: "mathlib \<Rightarrow> LLA64 \<Rightarrow> LLA64 \<Rightarrow> float64 \<times> string option" where
  "HaversineDistance64 lib origin position =
     (if fne0 (Altitude64 origin) \<or> fne0 (Altitude64 position)
      then (Num False 0, Some ''geo.HaversineDistance: Altitude must be 0'')
      else
        (let originLon = Degrees_Radians64 (Longitude64 origin);
             originLat = Degrees_Radians64 (Latitude64 origin);
             positionLon = Degrees_Radians64 (Longitude64 position);
             positionLat = Degrees_Radians64 (Latitude64 position);
             deltaLon = fsub originLon positionLon;
             deltaLat = fsub originLat positionLat;
             a = fadd (lib_Pow lib (lib_Sin lib (fdiv deltaLat (Num False 2))) (Num False 2))
                      (fmul (fmul (lib_Cos lib originLat) (lib_Cos lib positionLat))
                            (lib_Pow lib (lib_Sin lib (fdiv deltaLon (Num False 2))) (Num False 2)));
             c = fmul (Num False 2) (lib_Atan2 lib (fsqrt a) (fsqrt (fsub (Num False 1) a)))
         in (fmul earthRadiusMeters64 c, None)))"

section \<open>Package math in binary64\<close>





























fun signbit :: "float64 \<Rightarrow> bool" where
  "signbit (Num s m) = s"
| "signbit (Infty s) = s"
| "signbit NaN = False"







section \<open>Haversine distance: errors\<close>

text \<open>
  C3. \<^verbatim>\<open>HaversineDistance\<close> returns an error exactly when the altitude of the origin or
  of the position is not zero: also for one point with a nonzero altitude taken twice,
  and never for two points of altitude zero.
\<close>

theorem HaversineDistance_error_iff:
  "(snd (HaversineDistance origin position) \<noteq> None)
     = (Altitude origin \<noteq> 0 \<or> Altitude position \<noteq> 0)"
  by (simp add: HaversineDistance_def Let_def)

theorem HaversineDistance_error_iff_witness:
  "snd (HaversineDistance \<lparr>Latitude = 51.510357, Longitude = -0.116773, Altitude = 10\<rparr>
                          \<lparr>Latitude = 51.510357, Longitude = -0.116773, Altitude = 10\<rparr>) \<noteq> None
   \<and> snd (HaversineDistance \<lparr>Latitude = 51.510357, Longitude = -0.116773, Altitude = 0\<rparr>
                            \<lparr>Latitude = 51.510357, Longitude = -0.116773, Altitude = 0\<rparr>) = None"
  using HaversineDistance_error_iff
          [of "\<lparr>Latitude = 51.510357, Longitude = -0.116773, Altitude = 10\<rparr>"
              "\<lparr>Latitude = 51.510357, Longitude = -0.116773, Altitude = 10\<rparr>"]
        HaversineDistance_error_iff
          [of "\<lparr>Latitude = 51.510357, Longitude = -0.116773, Altitude = 0\<rparr>"
              "\<lparr>Latitude = 51.510357, Longitude = -0.116773, Altitude = 0\<rparr>"]
  by simp

text \<open>
  C10. Whenever \<^verbatim>\<open>HaversineDistance\<close> returns an error, the distance returned with it
  is 0.
\<close>

theorem HaversineDistance_error_zero:
  "snd (HaversineDistance origin position) \<noteq> None
     \<Longrightarrow> fst (HaversineDistance origin position) = 0"
  by (cases "Altitude origin \<noteq> 0 \<or> Altitude position \<noteq> 0")
     (simp_all add: HaversineDistance_def Let_def)

theorem HaversineDistance_error_zero_witness:
  "snd (HaversineDistance \<lparr>Latitude = 51.510357, Longitude = -0.116773, Altitude = 0\<rparr>
                          \<lparr>Latitude = 51.510357, Longitude = -0.116773, Altitude = 10\<rparr>) \<noteq> None
   \<and> fst (HaversineDistance \<lparr>Latitude = 51.510357, Longitude = -0.116773, Altitude = 0\<rparr>
                            \<lparr>Latitude = 51.510357, Longitude = -0.116773, Altitude = 10\<rparr>) = 0"
proof -
  have e: "snd (HaversineDistance \<lparr>Latitude = 51.510357, Longitude = -0.116773, Altitude = 0\<rparr>
              \<lparr>Latitude = 51.510357, Longitude = -0.116773, Altitude = 10\<rparr>) \<noteq> None"
    by (simp add: HaversineDistance_def)
  show ?thesis
    using e HaversineDistance_error_zero [OF e] by simp
qed

section \<open>AER and ENU: the formulas\<close>

text \<open>
  C8. \<^verbatim>\<open>AER.ENU\<close> returns East = Range * sin az * cos el, North = Range * cos az * sin el
  and Up = Range * sin el, where \<open>az\<close> and \<open>el\<close> are the azimuth and the elevation
  converted from degrees to radians.
\<close>

theorem AER_ENU_formula:
  "AER_ENU aer =
     (let az = Degrees_Radians (Azimuth aer); el = Degrees_Radians (Elevation aer)
      in \<lparr>East = Range_AER aer * sin az * cos el,
          North = Range_AER aer * cos az * sin el,
          Up = Range_AER aer * sin el\<rparr>)"
  by (simp add: AER_ENU_def Let_def Radians_F64_def)

text \<open>What \<^verbatim>\<open>ENU.AER\<close> returns: both angles are the values of \<^verbatim>\<open>math.Atan2\<close>, in radians.\<close>

lemma ENU_AER_general:
  "ENU_AER enu =
     \<lparr>Azimuth = Atan2 (East enu) (North enu),
      Elevation = Atan2 (Up enu) (sqrt ((East enu)\<^sup>2 + (North enu)\<^sup>2)),
      Range_AER = sqrt ((sqrt ((East enu)\<^sup>2 + (North enu)\<^sup>2))\<^sup>2 + (Up enu)\<^sup>2)\<rparr>"
  by (simp add: ENU_AER_def Let_def Meters_F64_def power2_eq_square)

lemma Atan2_0_1: "Atan2 0 1 = 0"
  by (simp add: Atan2_def)

lemma Atan2_1_1: "Atan2 1 1 = pi / 4"
  by (simp add: Atan2_def arctan_one)

text \<open>
  C2. For every ENU, \<^verbatim>\<open>ENU.AER\<close> is to return the azimuth \<open>atan2 East North\<close> and the
  elevation \<open>atan2 Up r\<close> in degrees, and the range \<open>sqrt (r\<^sup>2 + Up\<^sup>2)\<close>. For
  East = 1, North = 1, Up = 0 the azimuth in degrees is 45; the azimuth returned is
  \<open>pi / 4\<close>, the angle in radians.
\<close>

theorem ENU_AER_radians:
  "Azimuth (ENU_AER \<lparr>East = 1, North = 1, Up = 0\<rparr>) = pi / 4
   \<and> Radians_Degrees (Atan2 1 1) = 45
   \<and> Azimuth (ENU_AER \<lparr>East = 1, North = 1, Up = 0\<rparr>) \<noteq> Radians_Degrees (Atan2 1 1)"
proof -
  have a: "Azimuth (ENU_AER \<lparr>East = 1, North = 1, Up = 0\<rparr>) = pi / 4"
    by (simp add: ENU_AER_def Let_def Meters_F64_def Atan2_1_1)
  have b: "Radians_Degrees (Atan2 1 1) = 45"
    by (simp add: Radians_Degrees_def Atan2_1_1)
  have "pi / 4 < 45" using pi_less_4 by simp
  with a b show ?thesis by simp
qed

section \<open>AER and ENU: the round trip\<close>

lemma ENU_AER_test:
  "ENU_AER \<lparr>East = 10, North = 20, Up = 30\<rparr>
     = \<lparr>Azimuth = arctan (1 / 2), Elevation = Atan2 30 (sqrt 500), Range_AER = sqrt 1400\<rparr>"
  by (simp add: ENU_AER_def Let_def Meters_F64_def Atan2_def)

lemma East_small:
  "\<bar>East (AER_ENU \<lparr>Azimuth = arctan (1 / 2), Elevation = el, Range_AER = sqrt 1400\<rparr>)\<bar> \<le> 2"
proof -
  let ?az = "pi / 180 * arctan (1 / 2)"
  have r: "sqrt 1400 \<le> 38"
    by (rule real_le_lsqrt) simp_all
  have a0: "0 \<le> arctan (1 / 2 :: real)"
    by simp
  have "arctan (1 / 2 :: real) < pi / 2"
    by (rule arctan_ubound)
  then have a2: "arctan (1 / 2 :: real) \<le> 2"
    using pi_less_4 by linarith
  have "pi * arctan (1 / 2) \<le> 4 * 2"
    using a0 a2 pi_less_4 pi_gt_zero by (intro mult_mono) simp_all
  then have az: "\<bar>?az\<bar> \<le> 1 / 20"
    using a0 pi_gt_zero by (simp add: abs_mult)
  have "\<bar>sin ?az\<bar> \<le> \<bar>?az\<bar>"
    by (rule abs_sin_x_le_abs_x)
  with az have s: "\<bar>sin ?az\<bar> \<le> 1 / 20"
    by linarith
  have c: "\<bar>cos (pi / 180 * el)\<bar> \<le> 1"
    by (rule abs_cos_le_one)
  have "\<bar>sin ?az * cos (pi / 180 * el)\<bar> \<le> 1 / 20 * 1"
    unfolding abs_mult using s c by (intro mult_mono) simp_all
  then have "\<bar>sqrt 1400 * (sin ?az * cos (pi / 180 * el))\<bar> \<le> 38 * (1 / 20)"
    unfolding abs_mult [of "sqrt 1400"] using r by (intro mult_mono) simp_all
  then show ?thesis
    by (simp add: AER_ENU_def Let_def Radians_F64_def Degrees_Radians_def)
qed

text \<open>
  The product \<^verbatim>\<open>cosPhi*sinTheta\<close> for North loses a vector that points north: its
  azimuth and its elevation are both 0, in degrees as in radians, and it comes back
  as the zero vector.
\<close>

lemma ENU_AER_ENU_north_lost:
  "AER_ENU (ENU_AER \<lparr>East = 0, North = 1, Up = 0\<rparr>) = \<lparr>East = 0, North = 0, Up = 0\<rparr>"
  by (simp add: ENU_AER_def AER_ENU_def Let_def Meters_F64_def Radians_F64_def
      Degrees_Radians_def Atan2_0_1)

text \<open>
  C1. Every ENU with a nonzero range is to come back from \<^verbatim>\<open>ENU.AER\<close> and
  \<^verbatim>\<open>AER.ENU\<close> within the relative error \<open>1 / 10 ^ 6\<close>. The round trip of
  \<^verbatim>\<open>TestENUAERRoundTrip\<close>, East = 10, North = 20, Up = 30, does not give East back
  within that error: the East that comes back is at most 2.
\<close>

theorem ENU_AER_ENU_test_fails:
  "\<not> InEpsilon 10 (East (AER_ENU (ENU_AER \<lparr>East = 10, North = 20, Up = 30\<rparr>))) (1 / 10 ^ 6)"
proof -
  have "\<bar>East (AER_ENU (ENU_AER \<lparr>East = 10, North = 20, Up = 30\<rparr>))\<bar> \<le> 2"
    unfolding ENU_AER_test by (rule East_small)
  then show ?thesis
    by (simp add: InEpsilon_def)
qed

section \<open>WGS84: from LLA to XYZ\<close>

text \<open>
  C5. \<^verbatim>\<open>LLAToXYZ\<close> returns X = (alt + N) * cos lat * cos lon,
  Y = (alt + N) * cos lat * sin lon and Z = (alt + (1 - e2) * N) * sin lat, with \<open>lat\<close> and
  \<open>lon\<close> the latitude and the longitude in radians, \<open>N = a / sqrt (1 - e2 * (sin lat)\<^sup>2)\<close>,
  a = 6378137.0, b = 6356752.314245, f = (a - b) / a and e2 = f * (2 - f).
\<close>

theorem LLAToXYZ_formula:
  "LLAToXYZ l =
     (let lat = Degrees_Radians (Latitude l);
          lon = Degrees_Radians (Longitude l);
          a = 6378137.0;
          b = 6356752.314245;
          f = (a - b) / a;
          e2 = f * (2 - f);
          N = a / sqrt (1 - e2 * (sin lat)\<^sup>2)
      in \<lparr>X = (Altitude l + N) * cos lat * cos lon,
          Y = (Altitude l + N) * cos lat * sin lon,
          Z = (Altitude l + (1 - e2) * N) * sin lat\<rparr>)"
  unfolding LLAToXYZ_def Let_def Radians_F64_def Meters_F64_def wgs84ESq_def wgs84F_def wgs84A_def wgs84B_def
  by (simp only: power2_eq_square mult.assoc)

section \<open>Haversine distance in exact arithmetic\<close>

text \<open>
  In exact arithmetic the value \<open>a\<close> does not depend on the order of the two points
  and is 0 for a point and itself.
\<close>

lemma haversine_a_sym:
  "haversine_a lon1 lat1 lon2 lat2 = haversine_a lon2 lat2 lon1 lat1"
proof -
  have "sin ((lat1 - lat2) / 2) = - sin ((lat2 - lat1) / 2)"
    by (metis minus_diff_eq minus_divide_left sin_minus)
  moreover have "sin ((lon1 - lon2) / 2) = - sin ((lon2 - lon1) / 2)"
    by (metis minus_diff_eq minus_divide_left sin_minus)
  ultimately show ?thesis
    by (simp add: haversine_a_def Let_def mult.commute)
qed

lemma haversine_a_same: "haversine_a lon lat lon lat = 0"
  by (simp add: haversine_a_def)

text \<open>
  In exact arithmetic the value \<open>a\<close> is \<open>(1 - cos d) / 2\<close> for the central angle \<open>d\<close> of
  the two points, so it lies between 0 and 1 for all angles. The rounded value of the
  code need not: see section \<open>Haversine distance in binary64: two antipodal points\<close>.
\<close>

lemma sin_half_squared: "(sin (x / 2))\<^sup>2 = (1 - cos x) / 2" for x :: real
  using cos_double_sin [of "x / 2"] by simp

lemma sin_squared_le_1: "(sin x)\<^sup>2 \<le> 1" for x :: real
  using sin_cos_squared_add [of x] zero_le_power2 [of "cos x"] by linarith

lemma haversine_a_edge:
  "(sin ((lat1 - lat2) / 2))\<^sup>2 + cos lat1 * cos lat2 = (1 + cos (lat1 + lat2)) / 2"
  for lat1 lat2 :: real
  unfolding sin_half_squared cos_diff cos_add by (simp add: field_simps)

lemma haversine_lower:
  fixes P u T C :: real
  assumes "u \<le> T" and "- 1 \<le> C" and "P + u = (1 + C) / 2"
  shows "0 \<le> P + T"
  using assms by (simp add: field_simps)

lemma haversine_upper:
  fixes P u T C :: real
  assumes "T \<le> u" and "C \<le> 1" and "P + u = (1 + C) / 2"
  shows "P + T \<le> 1"
  using assms by (simp add: field_simps)

lemma haversine_a_nonneg: "0 \<le> haversine_a lon1 lat1 lon2 lat2"
proof (cases "0 \<le> cos lat1 * cos lat2")
  case True
  then show ?thesis
    by (simp add: haversine_a_def Let_def)
next
  case False
  have "(sin ((lon1 - lon2) / 2))\<^sup>2 \<le> 1"
    by (rule sin_squared_le_1)
  with False have "cos lat1 * cos lat2 \<le> cos lat1 * cos lat2 * (sin ((lon1 - lon2) / 2))\<^sup>2"
    using mult_left_mono_neg [of "(sin ((lon1 - lon2) / 2))\<^sup>2" 1 "cos lat1 * cos lat2"] by simp
  moreover have "- 1 \<le> cos (lat1 + lat2)"
    by (rule cos_ge_minus_one)
  ultimately show ?thesis
    unfolding haversine_a_def Let_def using haversine_a_edge [of lat1 lat2] by (rule haversine_lower)
qed

lemma haversine_a_le_1: "haversine_a lon1 lat1 lon2 lat2 \<le> 1"
proof (cases "cos lat1 * cos lat2 \<le> 0")
  case True
  have "0 \<le> (sin ((lon1 - lon2) / 2))\<^sup>2"
    by simp
  with True have "cos lat1 * cos lat2 * (sin ((lon1 - lon2) / 2))\<^sup>2 \<le> 0"
    by (rule mult_nonpos_nonneg)
  moreover have "(sin ((lat1 - lat2) / 2))\<^sup>2 \<le> 1"
    by (rule sin_squared_le_1)
  ultimately show ?thesis
    unfolding haversine_a_def Let_def by linarith
next
  case False
  have "(sin ((lon1 - lon2) / 2))\<^sup>2 \<le> 1"
    by (rule sin_squared_le_1)
  with False have "cos lat1 * cos lat2 * (sin ((lon1 - lon2) / 2))\<^sup>2 \<le> cos lat1 * cos lat2"
    using mult_left_mono [of "(sin ((lon1 - lon2) / 2))\<^sup>2" 1 "cos lat1 * cos lat2"] by simp
  moreover have "cos (lat1 + lat2) \<le> 1"
    by (rule cos_le_one)
  ultimately show ?thesis
    unfolding haversine_a_def Let_def using haversine_a_edge [of lat1 lat2] by (rule haversine_upper)
qed

section \<open>WGS84: the constants\<close>

lemma wgs84A_pos: "0 < wgs84A"
  by (simp add: wgs84A_def)

lemma wgs84B_pos: "0 < wgs84B"
  by (simp add: wgs84B_def)

lemma wgs84B_less_A: "wgs84B < wgs84A"
  by (simp add: wgs84A_def wgs84B_def)

lemma wgs84ESq_eq: "wgs84ESq = 1 - (wgs84B / wgs84A)\<^sup>2"
  using wgs84A_pos by (simp add: wgs84ESq_def wgs84F_def field_simps power2_eq_square)

lemma wgs84ESq_pos: "0 < wgs84ESq"
proof -
  have "0 < wgs84B / wgs84A" "wgs84B / wgs84A < 1"
    using wgs84A_pos wgs84B_pos wgs84B_less_A by simp_all
  then have "(wgs84B / wgs84A)\<^sup>2 < 1"
    by (simp add: power_less_one_iff)
  then show ?thesis by (simp add: wgs84ESq_eq)
qed

lemma wgs84ESq_less_1: "wgs84ESq < 1"
  using wgs84A_pos wgs84B_pos by (simp add: wgs84ESq_eq)

section \<open>WGS84: ENU and back\<close>

text \<open>
  The two rotations are transposes of each other and both translate by the position
  of the reference, so \<^verbatim>\<open>ENUToXYZ\<close> undoes \<^verbatim>\<open>XYZToENU\<close> for every reference.
\<close>

lemma ENUToXYZ_XYZToENU:
  "ENUToXYZ ref (XYZToENU ref p) = p"
proof -
  define sl where "sl = sin (Degrees_Radians (Latitude ref))"
  define cl where "cl = cos (Degrees_Radians (Latitude ref))"
  define sp where "sp = sin (Degrees_Radians (Longitude ref))"
  define cp where "cp = cos (Degrees_Radians (Longitude ref))"
  have l: "sl * sl + cl * cl = 1"
    unfolding sl_def cl_def using sin_cos_squared_add [of "Degrees_Radians (Latitude ref)"]
    by (simp add: power2_eq_square)
  have p: "sp * sp + cp * cp = 1"
    unfolding sp_def cp_def using sin_cos_squared_add [of "Degrees_Radians (Longitude ref)"]
    by (simp add: power2_eq_square)
  have x: "- sp * (- sp * xd + cp * yd)
           - cp * sl * (- cp * sl * xd - sl * sp * yd + cl * zd)
           + cl * cp * (cl * cp * xd + cl * sp * yd + sl * zd) = xd" for xd yd zd
    using l p by algebra
  have y: "cp * (- sp * xd + cp * yd)
           - sl * sp * (- cp * sl * xd - sl * sp * yd + cl * zd)
           + cl * sp * (cl * cp * xd + cl * sp * yd + sl * zd) = yd" for xd yd zd
    using l p by algebra
  have z: "cl * (- cp * sl * xd - sl * sp * yd + cl * zd)
           + sl * (cl * cp * xd + cl * sp * yd + sl * zd) = zd" for xd yd zd
    using l p by algebra
  show ?thesis
    unfolding ENUToXYZ_def XYZToENU_def LLAToXYZ_def Let_def Radians_F64_def Meters_F64_def
    unfolding sl_def [symmetric] cl_def [symmetric] sp_def [symmetric] cp_def [symmetric]
    by (simp only: ENU.select_convs XYZ.select_convs x y z diff_add_cancel XYZ.surjective [symmetric] unit.exhaust) simp
qed

section \<open>The angle returned by Atan2\<close>

lemma Atan2_pos: "0 < x \<Longrightarrow> Atan2 y x = arctan (y / x)"
  by (simp add: Atan2_def Let_def)

lemma Atan2_neg_pos: "x < 0 \<Longrightarrow> 0 < y \<Longrightarrow> Atan2 y x = arctan (y / x) + pi"
proof -
  assume x: "x < 0" and y: "0 < y"
  then have "y / x < 0" by (simp add: divide_pos_neg)
  then have "arctan (y / x) < 0" by simp
  with x y show ?thesis by (simp add: Atan2_def Let_def)
qed

lemma Atan2_neg_neg: "x < 0 \<Longrightarrow> y < 0 \<Longrightarrow> Atan2 y x = arctan (y / x) - pi"
proof -
  assume x: "x < 0" and y: "y < 0"
  then have "0 < y / x" by (simp add: divide_neg_neg)
  then have "0 < arctan (y / x)" by simp
  with x y show ?thesis by (simp add: Atan2_def Let_def)
qed

lemma cos_pos_range:
  assumes "- pi < t" "t \<le> pi" "0 < cos t"
  shows "- (pi / 2) < t \<and> t < pi / 2"
proof -
  have "\<bar>t\<bar> < pi / 2"
  proof (rule ccontr)
    assume "\<not> \<bar>t\<bar> < pi / 2"
    then have "pi / 2 \<le> \<bar>t\<bar>" "\<bar>t\<bar> \<le> pi" using assms by auto
    then have "cos \<bar>t\<bar> \<le> 0"
      using cos_monotone_0_pi_le [of "pi / 2" "\<bar>t\<bar>"] by simp
    then show False using assms(3) by simp
  qed
  then show ?thesis by auto
qed

lemma cos_neg_range:
  assumes "- pi < t" "t \<le> pi" "cos t < 0"
  shows "pi / 2 < \<bar>t\<bar>"
proof (rule ccontr)
  assume "\<not> pi / 2 < \<bar>t\<bar>"
  then have "- (pi / 2) \<le> t" "t \<le> pi / 2" by auto
  then have "0 \<le> cos t" by (rule cos_ge_zero)
  with assms(3) show False by simp
qed

lemma cos_zero_range:
  assumes "- pi < t" "t \<le> pi" "cos t = 0"
  shows "\<bar>t\<bar> = pi / 2"
proof -
  have "0 \<le> \<bar>t\<bar>" "\<bar>t\<bar> \<le> pi" using assms by auto
  then have "arccos (cos \<bar>t\<bar>) = \<bar>t\<bar>" by (rule arccos_cos)
  with assms(3) show ?thesis by simp
qed

lemma sin_zero_range:
  assumes "- pi < t" "t \<le> pi" "sin t = 0"
  shows "t = 0 \<or> t = pi"
proof (cases "t = pi")
  case False
  with assms have "t < pi" by simp
  with assms show ?thesis using sin_eq_0_pi by blast
qed simp

lemma Atan2_polar:
  assumes r: "0 < r" and t: "- pi < t" "t \<le> pi"
  shows "Atan2 (r * sin t) (r * cos t) = t"
proof (cases "sin t = 0")
  case True
  with t have "t = 0 \<or> t = pi" by (rule sin_zero_range)
  moreover have "Atan2 (r * sin 0) (r * cos 0) = 0"
    using r by (simp add: Atan2_def)
  moreover have "Atan2 (r * sin pi) (r * cos pi) = pi"
    using r by (simp add: Atan2_def)
  ultimately show ?thesis by auto
next
  case s: False
  show ?thesis
  proof (cases "cos t = 0")
    case True
    with t have h: "\<bar>t\<bar> = pi / 2" by (rule cos_zero_range)
    show ?thesis
    proof (cases "0 \<le> t")
      case True
      with h have e: "t = pi / 2" by simp
      have "Atan2 (r * sin (pi / 2)) (r * cos (pi / 2)) = pi / 2"
        using r by (simp add: Atan2_def)
      then show ?thesis unfolding e .
    next
      case False
      with h have e: "t = - (pi / 2)" by simp
      have "Atan2 (r * sin (- (pi / 2))) (r * cos (- (pi / 2))) = - (pi / 2)"
        using r by (simp add: Atan2_def)
      then show ?thesis unfolding e .
    qed
  next
    case c: False
    have q: "(r * sin t) / (r * cos t) = tan t"
      using r by (simp add: tan_def)
    show ?thesis
    proof (cases "0 < cos t")
      case True
      with t have "- (pi / 2) < t \<and> t < pi / 2" by (rule cos_pos_range)
      then have "arctan (tan t) = t" by (simp add: arctan_tan)
      moreover have "0 < r * cos t" using True r by simp
      ultimately show ?thesis by (simp only: Atan2_pos q)
    next
      case False
      with c have n: "cos t < 0" by simp
      with t have a: "pi / 2 < \<bar>t\<bar>" by (rule cos_neg_range)
      from s t have tpi: "t < pi" using sin_pi by (cases "t = pi") auto
      show ?thesis
      proof (cases "0 \<le> t")
        case True
        with a tpi have "- (pi / 2) < t - pi" "t - pi < pi / 2" by simp_all
        then have "arctan (tan (t - pi)) = t - pi" by (rule arctan_tan)
        moreover have "tan (t - pi) = tan t"
          using tan_periodic_pi [of "t - pi"] by simp
        ultimately have "arctan (tan t) = t - pi" by simp
        moreover have "r * cos t < 0" using n r by (simp add: mult_pos_neg)
        moreover have "0 < sin t" using True s tpi sin_gt_zero [of t] by (cases "t = 0") auto
        then have "0 < r * sin t" using r by simp
        ultimately show ?thesis by (simp only: Atan2_neg_pos q diff_add_cancel)
      next
        case False
        with a t have "- (pi / 2) < t + pi" "t + pi < pi / 2" by simp_all
        then have "arctan (tan (t + pi)) = t + pi" by (rule arctan_tan)
        then have "arctan (tan t) = t + pi" by simp
        moreover have "r * cos t < 0" using n r by (simp add: mult_pos_neg)
        moreover have "sin t < 0" using False t sin_gt_zero [of "- t"] by simp
        then have "r * sin t < 0" using r by (simp add: mult_pos_neg)
        ultimately show ?thesis by (simp only: Atan2_neg_neg q add_diff_cancel)
      qed
    qed
  qed
qed

section \<open>WGS84: XYZ to LLA on the ellipsoid\<close>

text \<open>
  On the ellipsoid (altitude 0) the angle \<open>q\<close> of \<^verbatim>\<open>XYZToLLA\<close> is the reduced latitude,
  with \<open>tan q = k * tan lat\<close> for \<open>k = b / a\<close>, and the closed form gives the latitude
  back exactly. Below \<open>W\<close> is \<open>sqrt (1 - e\<^sup>2 * (sin lat)\<^sup>2)\<close>, \<open>s\<close> and \<open>c\<close> are the sine and
  the cosine of the latitude.
\<close>

lemma bowring_tan_q:
  fixes A k s c W :: real
  assumes "0 < A" "0 < k" "0 < c" "0 < W"
  shows "(k * k * (A / W) * s) * A / ((A / W * c) * (k * A)) = k * s / c"
  using assms by (simp add: field_simps)

lemma bowring_hyp:
  fixes k s c W :: real
  assumes c: "0 < c" and W: "0 < W" and sc: "s * s + c * c = 1"
    and W2: "W * W = 1 - (1 - k * k) * s * s"
  shows "sqrt (1 + (k * s / c)\<^sup>2) = W / c"
proof -
  have "1 + (k * s / c)\<^sup>2 = (c * c + k * k * s * s) / (c * c)"
    using c by (simp add: field_simps power2_eq_square)
  also have "c * c + k * k * s * s = W * W"
    using sc W2 by algebra
  also have "W * W / (c * c) = (W / c)\<^sup>2"
    by (simp add: power2_eq_square)
  finally show ?thesis
    using c W by simp
qed

lemma bowring_num:
  fixes A k s W :: real
  assumes k: "0 < k" and W: "0 < W"
    and W2: "W * W = 1 - (1 - k * k) * s * s"
  shows "k * k * (A / W) * s
           + (1 - k * k) / (1 - (1 - k * k)) * (k * A) * ((k * s / W) * (k * s / W) * (k * s / W))
         = k * k * A * s / (W * W * W)"
proof -
  have "k * k * (A / W) * s
           + (1 - k * k) / (1 - (1 - k * k)) * (k * A) * ((k * s / W) * (k * s / W) * (k * s / W))
        = k * k * A * s * (W * W + (1 - k * k) * s * s) / (W * W * W)"
    using k W by (simp add: field_simps)
  also have "W * W + (1 - k * k) * s * s = 1"
    using W2 by simp
  finally show ?thesis by simp
qed

lemma bowring_den:
  fixes A k s c W :: real
  assumes W: "0 < W" and sc: "s * s + c * c = 1"
    and W2: "W * W = 1 - (1 - k * k) * s * s"
  shows "A / W * c - (1 - k * k) * A * ((c / W) * (c / W) * (c / W))
         = k * k * A * c / (W * W * W)"
proof -
  have "A / W * c - (1 - k * k) * A * ((c / W) * (c / W) * (c / W))
        = A * c * (W * W - (1 - k * k) * (c * c)) / (W * W * W)"
    using W by (simp add: field_simps)
  also have "W * W - (1 - k * k) * (c * c) = k * k"
    using W2 sc by algebra
  finally show ?thesis by (simp add: mult_ac)
qed

lemma polar_norm:
  fixes r t :: real
  assumes "0 \<le> r"
  shows "sqrt (r * cos t * (r * cos t) + r * sin t * (r * sin t)) = r"
proof -
  have "sin t * sin t + cos t * cos t = 1"
    using sin_cos_squared_add [of t] by (simp add: power2_eq_square)
  then have "r * cos t * (r * cos t) + r * sin t * (r * sin t) = r * r"
    by algebra
  then show ?thesis using assms by simp
qed

lemma XYZToLLA_Longitude:
  assumes "0 < r" "- pi < t" "t \<le> pi"
  shows "Longitude (XYZToLLA \<lparr>X = r * cos t, Y = r * sin t, Z = z\<rparr>) = Radians_Degrees t"
  using Atan2_polar [OF assms]
  by (simp add: XYZToLLA_def Let_def Meters_F64_def)

lemma wgs84W_pos: "0 < 1 - wgs84ESq * sin x * sin x"
proof -
  have "sin x * sin x \<le> 1"
    using sin_squared_eq [of x] by (simp add: power2_eq_square)
  then have "wgs84ESq * (sin x * sin x) \<le> wgs84ESq * 1"
    using wgs84ESq_pos by (intro mult_left_mono) simp_all
  then show ?thesis using wgs84ESq_less_1 by (simp add: mult.assoc)
qed

lemma XYZToLLA_surface:
  assumes f: "- (pi / 2) < f" "f < pi / 2"
    and x: "x = \<lparr>X = wgs84A / sqrt (1 - wgs84ESq * sin f * sin f) * cos f * cos t,
                 Y = wgs84A / sqrt (1 - wgs84ESq * sin f * sin f) * cos f * sin t,
                 Z = (1 - wgs84ESq) * (wgs84A / sqrt (1 - wgs84ESq * sin f * sin f)) * sin f\<rparr>"
  shows "XYZToLLA x
         = \<lparr>Latitude = Radians_Degrees f,
            Longitude = Radians_Degrees (Atan2 (Y x) (X x)),
            Altitude = 0\<rparr>"
proof -
  define k where "k = wgs84B / wgs84A"
  define W where "W = sqrt (1 - wgs84ESq * sin f * sin f)"
  define s where "s = sin f"
  define c where "c = cos f"
  note A = wgs84A_pos
  have k: "0 < k" by (simp add: k_def wgs84A_pos wgs84B_pos)
  have B: "wgs84B = k * wgs84A" using wgs84A_pos by (simp add: k_def)
  have E: "wgs84ESq = 1 - k * k" by (simp add: wgs84ESq_eq k_def power2_eq_square)
  have c: "0 < c" unfolding c_def using f by (rule cos_gt_zero_pi)
  have sc: "s * s + c * c = 1"
    unfolding s_def c_def using sin_cos_squared_add [of f] by (simp add: power2_eq_square)
  have W: "0 < W" unfolding W_def using wgs84W_pos [of f] by simp
  have "W * W = 1 - wgs84ESq * sin f * sin f"
    unfolding W_def using wgs84W_pos [of f] by simp
  then have W2: "W * W = 1 - (1 - k * k) * s * s"
    by (simp only: E s_def)
  have Xx: "X x = wgs84A / W * c * cos t" and Yx: "Y x = wgs84A / W * c * sin t"
    and Zx: "Z x = k * k * (wgs84A / W) * s"
    by (simp_all add: x W_def c_def s_def E)
  have Nc: "0 \<le> wgs84A / W * c" using A W c by simp
  have p: "sqrt (Meters_F64 (X x * X x + Y x * Y x)) = wgs84A / W * c"
    unfolding Xx Yx Meters_F64_def using Nc by (rule polar_norm)
  have pB: "0 < wgs84A / W * c * (k * wgs84A)" using A W c k by simp
  have q: "Atan2 (Meters_F64 (Z x) * wgs84A) (wgs84A / W * c * wgs84B) = arctan (k * s / c)"
    unfolding Zx Meters_F64_def B Atan2_pos [OF pB] bowring_tan_q [OF A k c W] ..
  have h: "sqrt (1 + (k * s / c)\<^sup>2) = W / c"
    using c W sc W2 by (rule bowring_hyp)
  have sq: "sin (arctan (k * s / c)) = k * s / W"
    unfolding sin_arctan h using c by simp
  have cq: "cos (arctan (k * s / c)) = c / W"
    unfolding cos_arctan h using c by simp
  have dpos: "0 < k * k * wgs84A * c / (W * W * W)" using k A c W by simp
  have "k * k * wgs84A * s / (W * W * W) / (k * k * wgs84A * c / (W * W * W)) = s / c"
    using k A c W by simp
  also have "s / c = tan f" by (simp add: s_def c_def tan_def)
  finally have "Atan2 (k * k * wgs84A * s / (W * W * W)) (k * k * wgs84A * c / (W * W * W)) = f"
    unfolding Atan2_pos [OF dpos] using f by (simp add: arctan_tan)
  then have phi: "Atan2 (Meters_F64 (Z x) + wgs84ESq / (1 - wgs84ESq) * wgs84B * (k * s / W * (k * s / W) * (k * s / W)))
                   (wgs84A / W * c - wgs84ESq * wgs84A * (c / W * (c / W) * (c / W))) = f"
    unfolding Zx Meters_F64_def E B bowring_num [OF k W W2] bowring_den [OF W sc W2] .
  have v: "wgs84A / sqrt (1.0 - wgs84ESq * sin f * sin f) = wgs84A / W"
    by (simp add: W_def)
  have alt: "wgs84A / W * c / cos f - wgs84A / W = 0" using c by (simp add: c_def)
  show ?thesis
    unfolding XYZToLLA_def Let_def
    by (simp only: p q sq cq phi v alt) (simp only: Meters_F64_def)
qed

lemma Degrees_Radians_mono:
  assumes "a < b"
  shows "pi / 180 * a < pi / 180 * b"
  using assms pi_gt_zero by (intro mult_strict_left_mono) simp_all

lemma Degrees_Radians_range:
  "- 90 < d \<Longrightarrow> - (pi / 2) < Degrees_Radians d"
  "d < 90 \<Longrightarrow> Degrees_Radians d < pi / 2"
  "- 180 < d \<Longrightarrow> - pi < Degrees_Radians d"
  "d \<le> 180 \<Longrightarrow> Degrees_Radians d \<le> pi"
proof -
  show "- 90 < d \<Longrightarrow> - (pi / 2) < Degrees_Radians d"
    using Degrees_Radians_mono [of "- 90" d] by (simp add: Degrees_Radians_def)
  show "d < 90 \<Longrightarrow> Degrees_Radians d < pi / 2"
    using Degrees_Radians_mono [of d 90] by (simp add: Degrees_Radians_def)
  show "- 180 < d \<Longrightarrow> - pi < Degrees_Radians d"
    using Degrees_Radians_mono [of "- 180" d] by (simp add: Degrees_Radians_def)
  show "d \<le> 180 \<Longrightarrow> Degrees_Radians d \<le> pi"
    using Degrees_Radians_mono [of d 180] by (cases "d = 180") (simp_all add: Degrees_Radians_def)
qed

lemma Radians_Degrees_Radians: "Radians_Degrees (Degrees_Radians d) = d"
  by (simp add: Radians_Degrees_def Degrees_Radians_def)

lemma wgs84N_ge_A: "wgs84A \<le> wgs84A / sqrt (1 - wgs84ESq * sin x * sin x)"
proof -
  have "0 \<le> wgs84ESq * (sin x * sin x)"
    using wgs84ESq_pos by simp
  then have "sqrt (1 - wgs84ESq * sin x * sin x) \<le> 1"
    by (simp add: mult.assoc)
  moreover have "0 < sqrt (1 - wgs84ESq * sin x * sin x)"
    using wgs84W_pos [of x] by simp
  ultimately show ?thesis
    using wgs84A_pos by (simp add: field_simps)
qed

lemma LLAToXYZ_polar:
  "LLAToXYZ l =
     \<lparr>X = (Altitude l + wgs84A / sqrt (1 - wgs84ESq * sin (Degrees_Radians (Latitude l)) * sin (Degrees_Radians (Latitude l))))
            * cos (Degrees_Radians (Latitude l)) * cos (Degrees_Radians (Longitude l)),
      Y = (Altitude l + wgs84A / sqrt (1 - wgs84ESq * sin (Degrees_Radians (Latitude l)) * sin (Degrees_Radians (Latitude l))))
            * cos (Degrees_Radians (Latitude l)) * sin (Degrees_Radians (Longitude l)),
      Z = (Altitude l + (1 - wgs84ESq) * (wgs84A / sqrt (1 - wgs84ESq * sin (Degrees_Radians (Latitude l)) * sin (Degrees_Radians (Latitude l)))))
            * sin (Degrees_Radians (Latitude l))\<rparr>"
  by (simp only: LLAToXYZ_def Let_def Radians_F64_def Meters_F64_def)

lemma XYZToLLA_LLAToXYZ_Longitude:
  assumes lat: "- 90 < Latitude l" "Latitude l < 90"
    and lon: "- 180 < Longitude l" "Longitude l \<le> 180"
    and alt: "- wgs84A < Altitude l"
  shows "Longitude (XYZToLLA (LLAToXYZ l)) = Longitude l"
proof -
  let ?f = "Degrees_Radians (Latitude l)" and ?t = "Degrees_Radians (Longitude l)"
  let ?N = "wgs84A / sqrt (1 - wgs84ESq * sin ?f * sin ?f)"
  have "0 < cos ?f"
    using lat by (intro cos_gt_zero_pi Degrees_Radians_range)
  moreover have "0 < Altitude l + ?N"
    using alt wgs84N_ge_A [of ?f] by linarith
  ultimately have r: "0 < (Altitude l + ?N) * cos ?f"
    by simp
  have t: "- pi < ?t" "?t \<le> pi"
    by (rule Degrees_Radians_range, rule lon)+
  show ?thesis
    unfolding LLAToXYZ_polar XYZToLLA_Longitude [OF r t] by (rule Radians_Degrees_Radians)
qed

lemma XYZToLLA_LLAToXYZ_surface:
  assumes lat: "- 90 < Latitude l" "Latitude l < 90"
    and lon: "- 180 < Longitude l" "Longitude l \<le> 180"
    and alt: "Altitude l = 0"
  shows "XYZToLLA (LLAToXYZ l) = l"
proof -
  let ?f = "Degrees_Radians (Latitude l)" and ?t = "Degrees_Radians (Longitude l)"
  have f: "- (pi / 2) < ?f" "?f < pi / 2"
    by (rule Degrees_Radians_range, rule lat)+
  have x: "LLAToXYZ l =
     \<lparr>X = wgs84A / sqrt (1 - wgs84ESq * sin ?f * sin ?f) * cos ?f * cos ?t,
      Y = wgs84A / sqrt (1 - wgs84ESq * sin ?f * sin ?f) * cos ?f * sin ?t,
      Z = (1 - wgs84ESq) * (wgs84A / sqrt (1 - wgs84ESq * sin ?f * sin ?f)) * sin ?f\<rparr>"
    unfolding LLAToXYZ_polar alt by simp
  have "- wgs84A < Altitude l"
    using alt wgs84A_pos by simp
  with lat lon have "Longitude (XYZToLLA (LLAToXYZ l)) = Longitude l"
    by (rule XYZToLLA_LLAToXYZ_Longitude)
  moreover have "XYZToLLA (LLAToXYZ l)
         = \<lparr>Latitude = Radians_Degrees ?f,
            Longitude = Radians_Degrees (Atan2 (Y (LLAToXYZ l)) (X (LLAToXYZ l))),
            Altitude = 0\<rparr>"
    using f x by (rule XYZToLLA_surface)
  ultimately show ?thesis
    using alt by (simp add: Radians_Degrees_Radians)
qed

section \<open>WGS84: XYZ to LLA above the ellipsoid\<close>




















section \<open>WGS84: the conversion cycle\<close>


text \<open>
  In exact arithmetic the cycle gives a position on the ellipsoid (altitude 0) back
  exactly.
\<close>

lemma WGS84_cycle_surface:
  assumes "- 90 < Latitude lla" and "Latitude lla < 90"
    and "- 180 < Longitude lla" and "Longitude lla \<le> 180"
  shows "ENUToXYZ ref (XYZToENU ref (LLAToXYZ lla)) = LLAToXYZ lla
    \<and> (- wgs84A < Altitude lla \<longrightarrow>
         Longitude (XYZToLLA (ENUToXYZ ref (XYZToENU ref (LLAToXYZ lla)))) = Longitude lla)
    \<and> (Altitude lla = 0 \<longrightarrow>
         XYZToLLA (ENUToXYZ ref (XYZToENU ref (LLAToXYZ lla))) = lla)"
  using assms
  by (simp add: ENUToXYZ_XYZToENU XYZToLLA_LLAToXYZ_Longitude XYZToLLA_LLAToXYZ_surface)



section \<open>binary64 arithmetic: rounding\<close>

text \<open>
  The equations of the rounded operations are unfolded by name only, so that a proof
  sees a rounding only where it asks for it.
\<close>

declare fmul.simps [simp del] fadd.simps [simp del] fdiv.simps [simp del] fsqrt.simps [simp del]

lemma pow2_pos: "0 < pow2 e"
  by (simp add: pow2_def)


lemma pow2_mono: "a \<le> b \<Longrightarrow> pow2 a \<le> pow2 b"
  by (simp add: pow2_def)





lemma round_mag_subnormal:
  assumes "y < pow2 (- 1022)"
  shows "round_mag y = of_int (rne (y / pow2 (- 1074))) * pow2 (- 1074)"
  using assms by (simp add: round_mag_def ulp_def)


lemma pow2_numeral:
  "pow2 (numeral n) = 2 ^ numeral n"
  "pow2 (- numeral n) = 1 / 2 ^ numeral n"
  "pow2 0 = 1" "pow2 1 = 2" "pow2 (- 1) = 1 / 2"
  by (simp_all add: pow2_def powr_minus_divide)



lemma rne_of_int [simp]: "rne (of_int n) = n"
  by (simp add: rne_def)



lemma rne_0 [simp]: "rne 0 = 0"
  by (simp add: rne_def)

lemma rnd_zero: "rnd s 0 = Num s 0"
  by (simp add: rnd_def round_mag_subnormal pow2_pos pow2_numeral)
















lemma pow2_ge_1: "0 \<le> k \<Longrightarrow> 1 \<le> pow2 k"
  using pow2_mono [of 0 k] by (simp add: pow2_numeral)


section \<open>Unit conversions: the round trip\<close>




section \<open>Haversine distance in binary64: the formula\<close>



text \<open>
  The guard of the code in \<^verbatim>\<open>float64\<close>: an altitude of \<open>-0\<close> passes it, a NaN altitude
  does not, and the distance returned with the error is \<open>+0\<close>.
\<close>

lemma HaversineDistance64_error_iff:
  "(snd (HaversineDistance64 lib origin position) \<noteq> None)
   = (fne0 (Altitude64 origin) \<or> fne0 (Altitude64 position))"
  by (simp add: HaversineDistance64_def Let_def)

lemma HaversineDistance64_error_zero:
  "snd (HaversineDistance64 lib origin position) \<noteq> None \<Longrightarrow>
   fst (HaversineDistance64 lib origin position) = Num False 0"
  by (cases "fne0 (Altitude64 origin) \<or> fne0 (Altitude64 position)")
    (simp_all add: HaversineDistance64_def Let_def)

section \<open>Haversine distance in binary64: two antipodal points\<close>



































section \<open>Haversine distance in binary64: the order of the points\<close>


lemma fneg_fneg [simp]: "fneg (fneg x) = x"
  by (cases x) simp_all










section \<open>Haversine distance in binary64: a point and itself\<close>





















lemma fmul_zero: "bounded64 k x \<Longrightarrow> fmul x (Num False 0) = Num (signbit x) 0"
  by (auto simp: bounded64_def fmul.simps rnd_zero)






end
